theory Spec2Isabelle
  imports Main "HOL-Library.AList"
begin

section \<open>Data of the chat peer\<close>

text \<open>
  The model follows \<^verbatim>\<open>src/chat_peer.py\<close>, class \<^verbatim>\<open>ChatPeer\<close>.

  A socket object is known by its identity, a natural number handed out by the counter
  \<open>next_sock\<close> of the state: two socket objects are never the same object. A Python
  \<^verbatim>\<open>str\<close> is the list of its Unicode code points, \<^verbatim>\<open>bytes\<close> the list of its
  byte values.
\<close>

type_synonym sock = nat
type_synonym bytes = "nat list"
type_synonym pystr = "nat list"

text \<open>One constructor for each line the program prints.\<close>

datatype line =
    ErrorAccepting
  | NewConnection pystr int
  | Prompt
  | MessageFrom pystr
  | SendersPort int
  | MessageText pystr
  | HasBeenTerminated int pystr int
  | InvalidIP
  | SelfConnection
  | DuplicateConnection
  | Connected pystr int
  | ConnectionFailed
  | DoesNotExist int
  | Terminated int pystr int
  | TooLong
  | MessageSent int
  | FailedToSend
  | ShuttingDown

text \<open>
  What a call does to the world outside the object: one event for each call on a socket
  (the call was made, whether it then returned or raised), each handler thread started,
  each line printed.
\<close>

datatype event =
    SockCreate sock
  | SockCreateDgram sock
  | SockAccept sock
  | SockSetTimeout sock
  | SockConnect sock pystr int
  | SockSend sock bytes
  | SockRecv sock
  | SockShutdown sock
  | SockClose sock
  | Spawn int sock pystr
  | Print line

text \<open>
  Three calls are taken to succeed whenever they are made: \<^verbatim>\<open>close\<close> on a socket,
  the creation of a socket object by \<^verbatim>\<open>get_my_ip\<close>, and the start of a thread. The
  constructor is modelled after its \<^verbatim>\<open>bind\<close> and \<^verbatim>\<open>listen\<close> have succeeded. The
  command loop \<^verbatim>\<open>run\<close>, which parses a line and calls the methods below, is not
  modelled.
\<close>

datatype exn = AttributeError | UnboundLocalError | KeyError | ValueError | SystemExit int

text \<open>\<^verbatim>\<open>except Exception\<close> catches every exception but \<^verbatim>\<open>SystemExit\<close>.\<close>

definition is_Exception :: "exn \<Rightarrow> bool" where
  "is_Exception e = (case e of SystemExit c \<Rightarrow> False | _ \<Rightarrow> True)"

text \<open>
  How a call ends: it returns a value, it raises, or it never comes back because it waits
  for a lock that is held (\<open>Blocked\<close>).
\<close>

datatype 'a result = Returned 'a | Blocked | Raised exn

text \<open>What the network does to a call: read by the model, chosen by the environment.\<close>

datatype io_outcome = IoOk | IoTimeout | IoError
datatype recv_outcome = RecvTimeout | RecvError | Received bytes
datatype accept_outcome = AcceptTimeout | AcceptError | Accepted pystr
datatype aton_outcome = AtonOk | AtonError | AtonValueError

text \<open>
  Library functions the program calls and does not define: \<^verbatim>\<open>socket.inet_aton\<close>
  (it returns, raises \<^verbatim>\<open>socket.error\<close>, or raises \<^verbatim>\<open>ValueError\<close> on an embedded
  NUL), \<^verbatim>\<open>bytes.decode\<close> and \<^verbatim>\<open>int\<close> on a string (\<open>None\<close> when they raise).
\<close>

record pylib =
  inet_aton :: "pystr \<Rightarrow> aton_outcome"
  decode :: "bytes \<Rightarrow> pystr option"
  py_int :: "pystr \<Rightarrow> int option"

text \<open>
  The object: the fields of \<^verbatim>\<open>ChatPeer.__init__\<close> (lines 10-23), the state of
  \<^verbatim>\<open>self.lock\<close>, and the two fields of the world: the next socket identity and the
  events so far. The dictionary \<^verbatim>\<open>connections\<close> keeps its insertion order.
\<close>

record chat_peer =
  port :: int
  connections :: "(int \<times> sock \<times> pystr \<times> int) list"
  connection_counter :: int
  lock_locked :: bool
  running :: bool
  server_socket :: sock
  next_sock :: sock
  trace :: "event list"

definition ChatPeer_init :: "int \<Rightarrow> chat_peer" where
  "ChatPeer_init p =
     \<lparr> port = p, connections = [], connection_counter = 0, lock_locked = False,
       running = True, server_socket = 0, next_sock = 1,
       trace = [SockCreate 0, SockSetTimeout 0] \<rparr>"

definition emit :: "event list \<Rightarrow> chat_peer \<Rightarrow> chat_peer" where
  "emit evs st = st\<lparr>trace := trace st @ evs\<rparr>"

definition closed :: "chat_peer \<Rightarrow> sock \<Rightarrow> bool" where
  "closed st s = (SockClose s \<in> set (trace st))"

definition live :: "chat_peer \<Rightarrow> int list" where
  "live st = map fst (connections st)"

section \<open>Strings and bytes\<close>

text \<open>
  \<^verbatim>\<open>str.encode()\<close>: UTF-8, one to four bytes for a code point, \<^verbatim>\<open>UnicodeEncodeError\<close>
  (here \<open>None\<close>) on a surrogate. A number from \<open>0x110000\<close> on is not a code point and
  occurs in no string of the program.
\<close>

definition utf8_char :: "nat \<Rightarrow> bytes option" where
  "utf8_char c =
     (if c < 0x80 then Some [c]
      else if c < 0x800 then Some [0xC0 + c div 0x40, 0x80 + c mod 0x40]
      else if 0xD800 \<le> c \<and> c \<le> 0xDFFF then None
      else if c < 0x10000 then
        Some [0xE0 + c div 0x1000, 0x80 + c div 0x40 mod 0x40, 0x80 + c mod 0x40]
      else if c < 0x110000 then
        Some [0xF0 + c div 0x40000, 0x80 + c div 0x1000 mod 0x40,
              0x80 + c div 0x40 mod 0x40, 0x80 + c mod 0x40]
      else None)"

fun encode :: "pystr \<Rightarrow> bytes option" where
  "encode [] = Some []"
| "encode (c # cs) =
     (case utf8_char c of
        None \<Rightarrow> None
      | Some b \<Rightarrow> (case encode cs of None \<Rightarrow> None | Some bs \<Rightarrow> Some (b @ bs)))"

text \<open>\<^verbatim>\<open>str(n)\<close> of an integer: its decimal digits, a minus sign first when negative.\<close>

fun digits10 :: "nat \<Rightarrow> pystr" where
  "digits10 n = (if n < 10 then [48 + n] else digits10 (n div 10) @ [48 + n mod 10])"

definition str_int :: "int \<Rightarrow> pystr" where
  "str_int i = (if i < 0 then 45 # digits10 (nat (- i)) else digits10 (nat i))"

text \<open>\<^verbatim>\<open>int(sock.recv(1024).decode())\<close> on the bytes received.\<close>

definition int_of_bytes :: "pylib \<Rightarrow> bytes \<Rightarrow> int option" where
  "int_of_bytes lib b = (case decode lib b of None \<Rightarrow> None | Some s \<Rightarrow> py_int lib s)"

section \<open>The lock\<close>

text \<open>
  \<^verbatim>\<open>with self.lock:\<close> on a \<^verbatim>\<open>threading.Lock\<close>, which is not reentrant: acquiring it
  while it is held waits until it is released. A call of the model runs alone, so nobody
  releases a lock that is held when the call reaches it, and the call is \<open>Blocked\<close>. The
  lock is released when the body returns or raises.
\<close>

definition with_lock ::
  "(chat_peer \<Rightarrow> 'a result \<times> chat_peer) \<Rightarrow> chat_peer \<Rightarrow> 'a result \<times> chat_peer" where
  "with_lock body st =
     (if lock_locked st then (Blocked, st)
      else (case body (st\<lparr>lock_locked := True\<rparr>) of
              (Blocked, st') \<Rightarrow> (Blocked, st')
            | (r, st') \<Rightarrow> (r, st'\<lparr>lock_locked := False\<rparr>)))"

text \<open>The result of a call made for its effect, followed by \<^verbatim>\<open>return v\<close>.\<close>

definition and_return :: "'b \<Rightarrow> 'a result \<times> chat_peer \<Rightarrow> 'b result \<times> chat_peer" where
  "and_return v rs = (map_result (\<lambda>u. v) (fst rs), snd rs)"

section \<open>Disconnect, terminate, send\<close>

text \<open>\<^verbatim>\<open>handle_disconnect\<close>, lines 105-113.\<close>

definition handle_disconnect :: "int \<Rightarrow> chat_peer \<Rightarrow> unit result \<times> chat_peer" where
  "handle_disconnect conn_id st =
     with_lock (\<lambda>s.
       (case map_of (connections s) conn_id of
          None \<Rightarrow> (Returned (), s)
        | Some (sk, addr, prt) \<Rightarrow>
            (Returned (),
             emit [SockClose sk, Print (HasBeenTerminated conn_id addr prt), Print Prompt]
               (s\<lparr>connections := AList.delete conn_id (connections s)\<rparr>)))) st"

text \<open>\<^verbatim>\<open>terminate_connection\<close>, lines 173-184.\<close>

definition terminate_connection :: "int \<Rightarrow> chat_peer \<Rightarrow> bool result \<times> chat_peer" where
  "terminate_connection conn_id st =
     with_lock (\<lambda>s.
       (case map_of (connections s) conn_id of
          None \<Rightarrow> (Returned False, emit [Print (DoesNotExist conn_id)] s)
        | Some (sk, addr, prt) \<Rightarrow>
            (Returned True,
             emit [SockClose sk, Print (Terminated conn_id addr prt)]
               (s\<lparr>connections := AList.delete conn_id (connections s)\<rparr>)))) st"

text \<open>
  The \<^verbatim>\<open>except\<close> branch of \<^verbatim>\<open>send_message\<close>, lines 201-204, entered with the lock
  held by the \<^verbatim>\<open>with\<close> of line 192.
\<close>

definition send_failed :: "int \<Rightarrow> chat_peer \<Rightarrow> bool result \<times> chat_peer" where
  "send_failed conn_id s =
     and_return False (handle_disconnect conn_id (emit [Print FailedToSend] s))"

text \<open>
  \<^verbatim>\<open>send_message\<close>, lines 186-204. \<open>wr\<close> is what the network does to the write.
  \<^verbatim>\<open>message.encode()\<close> is evaluated inside the \<^verbatim>\<open>try\<close>, before the call of
  \<^verbatim>\<open>send\<close>.
\<close>

definition send_message ::
  "io_outcome \<Rightarrow> int \<Rightarrow> pystr \<Rightarrow> chat_peer \<Rightarrow> bool result \<times> chat_peer" where
  "send_message wr conn_id message st =
     (if length message > 100 then (Returned False, emit [Print TooLong] st)
      else with_lock (\<lambda>s.
        (case map_of (connections s) conn_id of
           None \<Rightarrow> (Returned False, emit [Print (DoesNotExist conn_id)] s)
         | Some (sk, addr, prt) \<Rightarrow>
             (case encode message of
                None \<Rightarrow> send_failed conn_id s
              | Some data \<Rightarrow>
                  (if wr = IoOk
                   then (Returned True,
                         emit [SockSend sk data, Print (MessageSent conn_id)] s)
                   else send_failed conn_id (emit [SockSend sk data] s))))) st)"

section \<open>The listener loop\<close>

text \<open>
  Lines 58-60, the body of the \<^verbatim>\<open>with\<close> of both \<^verbatim>\<open>accept_connections\<close> and
  \<^verbatim>\<open>connect_to_peer\<close> (lines 144-146): the counter is incremented and the record
  stored under the new value.
\<close>

definition register :: "sock \<Rightarrow> pystr \<Rightarrow> int \<Rightarrow> chat_peer \<Rightarrow> chat_peer" where
  "register sk addr their_port s =
     (let s1 = s\<lparr>connection_counter := connection_counter s + 1\<rparr>
      in s1\<lparr>connections :=
               AList.update (connection_counter s1) (sk, addr, their_port) (connections s1)\<rparr>)"

text \<open>What the environment does to one iteration of the accept loop.\<close>

record accept_input =
  acc :: accept_outcome
  hs_recv :: recv_outcome
  hs_send :: io_outcome

text \<open>
  The second handler of the loop, lines 76-78: the error is printed while the peer is
  running. The first handler, lines 73-75, does nothing. Both go on with the loop.
\<close>

definition accept_error :: "chat_peer \<Rightarrow> chat_peer" where
  "accept_error st = (if running st then emit [Print ErrorAccepting] st else st)"

text \<open>
  One iteration of the loop of \<^verbatim>\<open>accept_connections\<close>, lines 49-78, from the call of
  \<^verbatim>\<open>accept\<close> on. The flag \<^verbatim>\<open>self.running\<close> is read by the loop head only (line 48)
  and by the second handler; nothing between line 50 and line 71 reads it.
\<close>

definition accept_iteration :: "pylib \<Rightarrow> accept_input \<Rightarrow> chat_peer \<Rightarrow> unit result \<times> chat_peer" where
  "accept_iteration lib inp st =
     (case acc inp of
        AcceptTimeout \<Rightarrow> (Returned (), st)
      | AcceptError \<Rightarrow> (Returned (), accept_error st)
      | Accepted addr \<Rightarrow>
          (let client_socket = next_sock st;
               st1 = emit [SockAccept client_socket, SockSetTimeout client_socket,
                           SockRecv client_socket]
                       (st\<lparr>next_sock := Suc client_socket\<rparr>)
           in case hs_recv inp of
                RecvTimeout \<Rightarrow> (Returned (), st1)
              | RecvError \<Rightarrow> (Returned (), accept_error st1)
              | Received b \<Rightarrow>
                  (case int_of_bytes lib b of
                     None \<Rightarrow> (Returned (), accept_error st1)
                   | Some their_port \<Rightarrow>
                       (case encode (str_int (port st1)) of
                          None \<Rightarrow> (Returned (), accept_error st1)
                        | Some data \<Rightarrow>
                            (let st2 = emit [SockSend client_socket data] st1
                             in case hs_send inp of
                                  IoTimeout \<Rightarrow> (Returned (), st2)
                                | IoError \<Rightarrow> (Returned (), accept_error st2)
                                | IoOk \<Rightarrow>
                                    (case with_lock (\<lambda>s. (Returned (),
                                             register client_socket addr their_port s)) st2 of
                                       (Returned u, st3) \<Rightarrow>
                                         (Returned (),
                                          emit [Print (NewConnection addr their_port),
                                                Print Prompt,
                                                Spawn (connection_counter st3) client_socket addr]
                                            st3)
                                     | (r, st3) \<Rightarrow> (r, st3)))))))"

text \<open>
  How the loop stands when the model stops following it: it has left the \<^verbatim>\<open>while\<close>
  (\<open>LoopExit\<close>), it waits in \<^verbatim>\<open>accept\<close> for input the list no longer gives
  (\<open>LoopPending\<close>), it waits for the lock, or it raised.
\<close>

datatype loop_end = LoopExit | LoopPending | LoopBlocked | LoopRaised exn

text \<open>
  \<^verbatim>\<open>accept_connections\<close>, lines 46-78: the list gives what the environment does to each
  iteration in turn.
\<close>

fun accept_connections :: "pylib \<Rightarrow> accept_input list \<Rightarrow> chat_peer \<Rightarrow> loop_end \<times> chat_peer" where
  "accept_connections lib [] st = (if running st then (LoopPending, st) else (LoopExit, st))"
| "accept_connections lib (inp # rest) st =
     (if running st then
        (case accept_iteration lib inp st of
           (Returned u, st') \<Rightarrow> accept_connections lib rest st'
         | (Blocked, st') \<Rightarrow> (LoopBlocked, st')
         | (Raised e, st') \<Rightarrow> (LoopRaised e, st'))
      else (LoopExit, st))"

section \<open>The reader loop\<close>

datatype reader_step = Continue | Break

text \<open>The second handler of \<^verbatim>\<open>handle_connection\<close>, lines 100-103.\<close>

definition reader_error :: "int \<Rightarrow> chat_peer \<Rightarrow> reader_step result \<times> chat_peer" where
  "reader_error conn_id st =
     (if running st then and_return Break (handle_disconnect conn_id st)
      else (Returned Break, st))"

text \<open>
  One iteration of the loop of \<^verbatim>\<open>handle_connection\<close>, lines 84-103; the arguments are
  those the thread was started with. Line 91 raises \<^verbatim>\<open>KeyError\<close> when the record is no
  longer there.
\<close>

definition handle_connection_iteration ::
  "pylib \<Rightarrow> recv_outcome \<Rightarrow> int \<Rightarrow> sock \<Rightarrow> pystr \<Rightarrow> chat_peer \<Rightarrow> reader_step result \<times> chat_peer" where
  "handle_connection_iteration lib rd conn_id client_socket addr st =
     (let st1 = emit [SockRecv client_socket] st
      in case rd of
           RecvTimeout \<Rightarrow> (Returned Continue, st1)
         | RecvError \<Rightarrow> reader_error conn_id st1
         | Received b \<Rightarrow>
             (case decode lib b of
                None \<Rightarrow> reader_error conn_id st1
              | Some message \<Rightarrow>
                  (if message = [] then and_return Break (handle_disconnect conn_id st1)
                   else (case map_of (connections st1) conn_id of
                           None \<Rightarrow> reader_error conn_id st1
                         | Some (sk, a, their_port) \<Rightarrow>
                             (Returned Continue,
                              emit [Print (MessageFrom addr), Print (SendersPort their_port),
                                    Print (MessageText message), Print Prompt] st1)))))"

section \<open>The dialer\<close>

definition localhost :: pystr where
  "localhost = map of_char ''127.0.0.1''"

definition probe_address :: pystr where
  "probe_address = map of_char ''10.255.255.255''"

text \<open>
  \<^verbatim>\<open>get_my_ip\<close>, lines 33-44. \<open>probe\<close> is the address \<^verbatim>\<open>getsockname\<close> gives, \<open>None\<close>
  when the \<^verbatim>\<open>try\<close> raises.
\<close>

definition get_my_ip :: "pystr option \<Rightarrow> chat_peer \<Rightarrow> pystr \<times> chat_peer" where
  "get_my_ip probe st =
     (let s = next_sock st;
          st1 = emit [SockCreateDgram s, SockConnect s probe_address 1, SockClose s]
                  (st\<lparr>next_sock := Suc s\<rparr>)
      in (case probe of Some ip \<Rightarrow> (ip, st1) | None \<Rightarrow> (localhost, st1)))"

text \<open>The loop of lines 130-133.\<close>

fun duplicate_connection :: "pystr \<Rightarrow> int \<Rightarrow> (int \<times> sock \<times> pystr \<times> int) list \<Rightarrow> bool" where
  "duplicate_connection ip prt [] = False"
| "duplicate_connection ip prt ((k, sk, addr, their_port) # es) =
     (if addr = ip \<and> their_port = prt then True else duplicate_connection ip prt es)"

record dial_input =
  my_ip_probe :: "pystr option"
  d_connect :: io_outcome
  d_send :: io_outcome
  d_recv :: recv_outcome

text \<open>The handler of lines 159-161.\<close>

definition connection_failed :: "chat_peer \<Rightarrow> bool result \<times> chat_peer" where
  "connection_failed st = (Returned False, emit [Print ConnectionFailed] st)"

text \<open>The \<^verbatim>\<open>try\<close> block of \<^verbatim>\<open>connect_to_peer\<close>, lines 135-157.\<close>

definition dial :: "pylib \<Rightarrow> dial_input \<Rightarrow> pystr \<Rightarrow> int \<Rightarrow> chat_peer \<Rightarrow> bool result \<times> chat_peer" where
  "dial lib inp ip prt st =
     (let new_socket = next_sock st;
          st1 = emit [SockCreate new_socket, SockConnect new_socket ip prt]
                  (st\<lparr>next_sock := Suc new_socket\<rparr>)
      in if d_connect inp \<noteq> IoOk then connection_failed st1
         else (case encode (str_int (port st1)) of
                 None \<Rightarrow> connection_failed st1
               | Some data \<Rightarrow>
                   (let st2 = emit [SockSend new_socket data] st1
                    in if d_send inp \<noteq> IoOk then connection_failed st2
                       else (let st3 = emit [SockRecv new_socket] st2
                             in case d_recv inp of
                                  RecvTimeout \<Rightarrow> connection_failed st3
                                | RecvError \<Rightarrow> connection_failed st3
                                | Received b \<Rightarrow>
                                    (case int_of_bytes lib b of
                                       None \<Rightarrow> connection_failed st3
                                     | Some their_port \<Rightarrow>
                                         (case with_lock (\<lambda>s. (Returned (),
                                                 register new_socket ip their_port s)) st3 of
                                            (Returned u, st4) \<Rightarrow>
                                              (Returned True,
                                               emit [Spawn (connection_counter st4) new_socket ip,
                                                     Print (Connected ip prt)] st4)
                                          | (r, st4) \<Rightarrow> (map_result (\<lambda>u. False) r, st4)))))))"

text \<open>\<^verbatim>\<open>connect_to_peer\<close>, lines 115-161.\<close>

definition connect_to_peer ::
  "pylib \<Rightarrow> dial_input \<Rightarrow> pystr \<Rightarrow> int \<Rightarrow> chat_peer \<Rightarrow> bool result \<times> chat_peer" where
  "connect_to_peer lib inp ip prt st =
     (case inet_aton lib ip of
        AtonValueError \<Rightarrow> (Raised ValueError, st)
      | AtonError \<Rightarrow> (Returned False, emit [Print InvalidIP] st)
      | AtonOk \<Rightarrow>
          (case get_my_ip (my_ip_probe inp) st of
             (my_ip, st1) \<Rightarrow>
               (if ip = my_ip \<and> prt = port st1
                then (Returned False, emit [Print SelfConnection] st1)
                else if duplicate_connection ip prt (connections st1)
                then (Returned False, emit [Print DuplicateConnection] st1)
                else dial lib inp ip prt st1)))"

section \<open>Shutdown\<close>

text \<open>
  What a name of the program text stands for when it is read. \<^verbatim>\<open>handle_shutdown\<close>
  assigns the name \<^verbatim>\<open>socket\<close> (line 215), which makes it a local variable of the whole
  function: there it is unbound until line 215 has run, and a socket object afterwards,
  never the module \<^verbatim>\<open>socket\<close>. The module has the attribute \<^verbatim>\<open>SHUT_RDWR\<close> (the
  integer 2); a socket object has not.
\<close>

datatype pyname = ModuleSocket | SocketObject sock | Unbound

definition name_SHUT_RDWR :: "pyname \<Rightarrow> exn + int" where
  "name_SHUT_RDWR n =
     (case n of
        ModuleSocket \<Rightarrow> Inr 2
      | SocketObject s \<Rightarrow> Inl AttributeError
      | Unbound \<Rightarrow> Inl UnboundLocalError)"

text \<open>
  Lines 216-219, after line 215 has bound the name to the socket \<open>sk\<close>: the argument
  \<^verbatim>\<open>socket.SHUT_RDWR\<close> is evaluated before \<^verbatim>\<open>shutdown\<close> is called, \<^verbatim>\<open>close\<close> follows
  a \<^verbatim>\<open>shutdown\<close> that returned, and the handler passes over an \<^verbatim>\<open>Exception\<close>. The
  first component is the exception that is not caught, if any. \<open>sd\<close> is what the network
  does to \<^verbatim>\<open>shutdown\<close> on each socket.
\<close>

definition close_attempt ::
  "(sock \<Rightarrow> io_outcome) \<Rightarrow> pyname \<Rightarrow> sock \<Rightarrow> chat_peer \<Rightarrow> exn option \<times> chat_peer" where
  "close_attempt sd loc sk st =
     (case name_SHUT_RDWR loc of
        Inl e \<Rightarrow> (if is_Exception e then None else Some e, st)
      | Inr how \<Rightarrow>
          (None, if sd sk = IoOk then emit [SockShutdown sk, SockClose sk] st
                 else emit [SockShutdown sk] st))"

text \<open>
  The loop of lines 213-220 over the keys listed at line 213; \<open>loc\<close> is the local name
  \<^verbatim>\<open>socket\<close>, returned as the loop leaves it.
\<close>

fun shutdown_loop ::
  "(sock \<Rightarrow> io_outcome) \<Rightarrow> int list \<Rightarrow> pyname \<Rightarrow> chat_peer \<Rightarrow> pyname result \<times> chat_peer" where
  "shutdown_loop sd [] loc st = (Returned loc, st)"
| "shutdown_loop sd (conn_id # rest) loc st =
     (case map_of (connections st) conn_id of
        None \<Rightarrow> (Raised KeyError, st)
      | Some (sk, addr, prt) \<Rightarrow>
          (case close_attempt sd (SocketObject sk) sk st of
             (Some e, st1) \<Rightarrow> (Raised e, st1)
           | (None, st1) \<Rightarrow>
               shutdown_loop sd rest (SocketObject sk)
                 (st1\<lparr>connections := AList.delete conn_id (connections st1)\<rparr>)))"

text \<open>
  Lines 223-227: the listening socket. \<^verbatim>\<open>socket.SHUT_RDWR\<close> reads the same local name;
  \<^verbatim>\<open>close\<close> is outside the \<^verbatim>\<open>try\<close>.
\<close>

definition close_server ::
  "(sock \<Rightarrow> io_outcome) \<Rightarrow> pyname \<Rightarrow> chat_peer \<Rightarrow> exn option \<times> chat_peer" where
  "close_server sd loc st =
     (case name_SHUT_RDWR loc of
        Inl e \<Rightarrow>
          (if is_Exception e then (None, emit [SockClose (server_socket st)] st)
           else (Some e, st))
      | Inr how \<Rightarrow>
          (None, emit [SockShutdown (server_socket st), SockClose (server_socket st)] st))"

text \<open>Lines 208-209.\<close>

definition begin_shutdown :: "chat_peer \<Rightarrow> chat_peer" where
  "begin_shutdown st = (emit [Print ShuttingDown] st)\<lparr>running := False\<rparr>"

text \<open>
  \<^verbatim>\<open>handle_shutdown\<close>, lines 206-229. \<^verbatim>\<open>sys.exit(0)\<close> raises \<^verbatim>\<open>SystemExit\<close> with
  code 0.
\<close>

definition handle_shutdown :: "(sock \<Rightarrow> io_outcome) \<Rightarrow> chat_peer \<Rightarrow> unit result \<times> chat_peer" where
  "handle_shutdown sd st =
     (case with_lock (\<lambda>s. shutdown_loop sd (map fst (connections s)) Unbound s)
             (begin_shutdown st) of
        (Returned loc, st2) \<Rightarrow>
          (case close_server sd loc st2 of
             (None, st3) \<Rightarrow> (Raised (SystemExit 0), st3)
           | (Some e, st3) \<Rightarrow> (Raised e, st3))
      | (Blocked, st2) \<Rightarrow> (Blocked, st2)
      | (Raised e, st2) \<Rightarrow> (Raised e, st2))"

section \<open>Runs of the peer\<close>

text \<open>
  The calls that change the object, each with what the environment does to it. A run
  executes them one after the other; every change of the table happens inside a
  \<^verbatim>\<open>with self.lock\<close>, so the states between the calls of a run are the states the
  threads of the program can see the table in.
\<close>

datatype action =
    Accept accept_input
  | Read recv_outcome int sock pystr
  | Dial dial_input pystr int
  | Terminate int
  | Send io_outcome int pystr
  | BeginShutdown
  | Shutdown "sock \<Rightarrow> io_outcome"

fun exec :: "pylib \<Rightarrow> action \<Rightarrow> chat_peer \<Rightarrow> chat_peer" where
  "exec lib (Accept inp) st = snd (accept_iteration lib inp st)"
| "exec lib (Read rd conn_id sk addr) st = snd (handle_connection_iteration lib rd conn_id sk addr st)"
| "exec lib (Dial inp ip prt) st = snd (connect_to_peer lib inp ip prt st)"
| "exec lib (Terminate conn_id) st = snd (terminate_connection conn_id st)"
| "exec lib (Send wr conn_id message) st = snd (send_message wr conn_id message st)"
| "exec lib BeginShutdown st = begin_shutdown st"
| "exec lib (Shutdown sd) st = snd (handle_shutdown sd st)"

definition run :: "pylib \<Rightarrow> action list \<Rightarrow> chat_peer \<Rightarrow> chat_peer" where
  "run lib acts st = fold (exec lib) acts st"

text \<open>Every record of the table holds a socket that has not been closed.\<close>

definition sockets_open :: "chat_peer \<Rightarrow> bool" where
  "sockets_open st = (\<forall>(k, sk, addr, prt) \<in> set (connections st). \<not> closed st sk)"

text \<open>The ids of the table are distinct and at most the counter.\<close>

definition ids_assigned :: "chat_peer \<Rightarrow> bool" where
  "ids_assigned st =
     (distinct (live st) \<and> (\<forall>k \<in> set (live st). k \<le> connection_counter st))"

text \<open>
  Socket objects are handed out in order: the listening socket, the sockets of the table
  and the sockets that have been closed are older than the next one, and no two records
  share a socket.
\<close>

definition sockets_known :: "chat_peer \<Rightarrow> bool" where
  "sockets_known st =
     (server_socket st < next_sock st \<and>
      distinct (map (fst \<circ> snd) (connections st)) \<and>
      (\<forall>(k, sk, addr, prt) \<in> set (connections st). sk < next_sock st) \<and>
      (\<forall>e \<in> set (trace st). case e of SockClose s \<Rightarrow> s < next_sock st | _ \<Rightarrow> True))"

text \<open>
  The ways one call changes the table, the counter and the set of closed sockets: it leaves
  the table alone and closes at most sockets it has created itself; it registers a socket
  it has created under the next id; it deletes one record and closes at most the socket of
  that record; or it empties the table and closes at most the listening socket.
\<close>

definition table_change :: "chat_peer \<Rightarrow> chat_peer \<Rightarrow> bool" where
  "table_change st st' =
     (server_socket st' = server_socket st \<and> next_sock st \<le> next_sock st' \<and>
      ((connections st' = connections st \<and> connection_counter st' = connection_counter st \<and>
        (\<forall>s. closed st' s \<longrightarrow> closed st s \<or> (next_sock st \<le> s \<and> s < next_sock st'))) \<or>
       (\<exists>sk addr prt.
          connections st' =
            AList.update (connection_counter st + 1) (sk, addr, prt) (connections st) \<and>
          connection_counter st' = connection_counter st + 1 \<and>
          next_sock st \<le> sk \<and> sk < next_sock st' \<and>
          (\<forall>s. closed st' s \<longrightarrow>
             closed st s \<or> (next_sock st \<le> s \<and> s < next_sock st' \<and> s \<noteq> sk))) \<or>
       (\<exists>k sk addr prt.
          map_of (connections st) k = Some (sk, addr, prt) \<and>
          connections st' = AList.delete k (connections st) \<and>
          connection_counter st' = connection_counter st \<and>
          (\<forall>s. closed st' s \<longrightarrow> closed st s \<or> s = sk)) \<or>
       (connections st' = [] \<and> connection_counter st' = connection_counter st \<and>
        (\<forall>s. closed st' s \<longrightarrow> closed st s \<or> s = server_socket st))))"

text \<open>The three properties together.\<close>

definition table_ok :: "chat_peer \<Rightarrow> bool" where
  "table_ok st = (sockets_open st \<and> ids_assigned st \<and> sockets_known st)"

section \<open>Examples\<close>

text \<open>
  A library in which the bytes \<open>[54, 48, 48, 48]\<close> (the text 6000) are the only ones that
  decode to an integer and every address is well formed, and the address 10.0.0.2.
\<close>

definition example_lib :: pylib where
  "example_lib =
     \<lparr> inet_aton = (\<lambda>ip. AtonOk),
       decode = (\<lambda>b. Some b),
       py_int = (\<lambda>s. if s = [54, 48, 48, 48] then Some 6000 else None) \<rparr>"

definition example_ip :: pystr where
  "example_ip = [49, 48, 46, 48, 46, 48, 46, 50]"

definition good_accept :: accept_input where
  "good_accept = \<lparr> acc = Accepted example_ip, hs_recv = Received [54, 48, 48, 48], hs_send = IoOk \<rparr>"

definition bad_accept :: accept_input where
  "bad_accept = \<lparr> acc = Accepted example_ip, hs_recv = Received [104, 105], hs_send = IoOk \<rparr>"

text \<open>The peer on port 5000 after one inbound connection has been registered.\<close>

definition one_peer :: chat_peer where
  "one_peer = snd (accept_iteration example_lib good_accept (ChatPeer_init 5000))"



section \<open>Auxiliary facts\<close>

lemma accept_iteration_closes_nothing:
  "closed (snd (accept_iteration lib inp st)) s = closed st s"
  by (simp add: accept_iteration_def accept_error_def emit_def with_lock_def register_def
      closed_def Let_def
      split: accept_outcome.splits recv_outcome.splits option.splits io_outcome.splits)

lemma accept_iteration_flag_prints_only:
  "fst (accept_iteration lib inp (st\<lparr>running := b\<rparr>)) = fst (accept_iteration lib inp st) \<and>
   (snd (accept_iteration lib inp (st\<lparr>running := b\<rparr>)))
      \<lparr>running := running st,
       trace := filter (\<lambda>e. e \<noteq> Print ErrorAccepting)
                  (trace (snd (accept_iteration lib inp (st\<lparr>running := b\<rparr>))))\<rparr> =
   (snd (accept_iteration lib inp st))
      \<lparr>trace := filter (\<lambda>e. e \<noteq> Print ErrorAccepting)
                  (trace (snd (accept_iteration lib inp st)))\<rparr>"
  by (simp add: accept_iteration_def accept_error_def emit_def with_lock_def register_def Let_def
      split: accept_outcome.splits recv_outcome.splits option.splits io_outcome.splits)

lemma accept_iteration_registers:
  assumes "acc inp = Accepted addr" and "hs_recv inp = Received b"
    and "int_of_bytes lib b = Some their_port" and "encode (str_int (port st)) = Some data"
    and "hs_send inp = IoOk" and "\<not> lock_locked st"
  shows "accept_iteration lib inp st =
     (Returned (),
      emit [SockAccept (next_sock st), SockSetTimeout (next_sock st), SockRecv (next_sock st),
            SockSend (next_sock st) data, Print (NewConnection addr their_port), Print Prompt,
            Spawn (connection_counter st + 1) (next_sock st) addr]
        (st\<lparr>next_sock := Suc (next_sock st),
            connection_counter := connection_counter st + 1,
            connections := AList.update (connection_counter st + 1)
                             (next_sock st, addr, their_port) (connections st)\<rparr>))"
  using assms
  by (simp add: accept_iteration_def emit_def with_lock_def register_def Let_def)

lemma one_peer_eq:
  "one_peer =
     \<lparr> port = 5000, connections = [(1, 1, example_ip, 6000)], connection_counter = 1,
       lock_locked = False, running = True, server_socket = 0, next_sock = 2,
       trace = [SockCreate 0, SockSetTimeout 0, SockAccept 1, SockSetTimeout 1, SockRecv 1,
                SockSend 1 [53, 48, 48, 48], Print (NewConnection example_ip 6000),
                Print Prompt, Spawn 1 1 example_ip] \<rparr>"
  by (simp add: one_peer_def accept_iteration_def good_accept_def example_lib_def
      ChatPeer_init_def emit_def int_of_bytes_def with_lock_def register_def str_int_def
      utf8_char_def Let_def)

lemma encode_replicate:
  "utf8_char c = Some b \<Longrightarrow> encode (replicate n c) = Some (concat (replicate n b))"
  by (induction n) simp_all

lemma length_concat_replicate: "length (concat (replicate n b)) = n * length b"
  by (induction n) simp_all

lemma send_message_failure_blocks:
  assumes "\<not> lock_locked st" and "length message \<le> 100"
    and "map_of (connections st) conn_id = Some (sk, addr, prt)"
    and "encode message = Some data" and "wr \<noteq> IoOk"
  shows "send_message wr conn_id message st =
           (Blocked, emit [SockSend sk data, Print FailedToSend] (st\<lparr>lock_locked := True\<rparr>))"
  using assms
  by (simp add: send_message_def with_lock_def send_failed_def handle_disconnect_def
      and_return_def emit_def)

lemma shutdown_loop_drains:
  "distinct ks \<Longrightarrow> set ks \<subseteq> fst ` set (connections st) \<Longrightarrow> loc \<noteq> ModuleSocket \<Longrightarrow>
   \<exists>loc'. loc' \<noteq> ModuleSocket \<and>
     shutdown_loop sd ks loc st =
       (Returned loc', st\<lparr>connections := filter (\<lambda>e. fst e \<notin> set ks) (connections st)\<rparr>)"
proof (induction ks arbitrary: st loc)
  case Nil
  then show ?case by simp
next
  case (Cons conn_id rest)
  from Cons.prems obtain v where v: "map_of (connections st) conn_id = Some v"
    by (cases "map_of (connections st) conn_id") (auto simp: map_of_eq_None_iff)
  obtain sk addr prt where [simp]: "v = (sk, addr, prt)" by (cases v)
  let ?st1 = "st\<lparr>connections := AList.delete conn_id (connections st)\<rparr>"
  have sub: "set rest \<subseteq> fst ` set (connections ?st1)"
  proof
    fix x assume x: "x \<in> set rest"
    with Cons.prems have "x \<noteq> conn_id" "x \<in> fst ` set (connections st)" by auto
    then show "x \<in> fst ` set (connections ?st1)"
      by (force simp: AList.delete_eq)
  qed
  from Cons.IH [of ?st1 "SocketObject sk"] Cons.prems sub
  obtain loc' where loc': "loc' \<noteq> ModuleSocket"
    "shutdown_loop sd rest (SocketObject sk) ?st1 =
       (Returned loc', ?st1\<lparr>connections := filter (\<lambda>e. fst e \<notin> set rest) (connections ?st1)\<rparr>)"
    by auto
  have flt: "filter (\<lambda>e. fst e \<notin> set rest) (AList.delete conn_id (connections st)) =
      filter (\<lambda>e. fst e \<notin> set (conn_id # rest)) (connections st)"
    by (auto simp: AList.delete_eq intro: filter_cong)
  show ?case
    using v loc' flt
    by (simp add: close_attempt_def name_SHUT_RDWR_def is_Exception_def)
qed

lemma handle_shutdown_result:
  assumes "\<not> lock_locked st" and "distinct (map fst (connections st))"
  shows "handle_shutdown sd st =
           (Raised (SystemExit 0),
            (emit [Print ShuttingDown, SockClose (server_socket st)] st)
              \<lparr>running := False, connections := []\<rparr>)"
proof -
  let ?s = "(begin_shutdown st)\<lparr>lock_locked := True\<rparr>"
  have "\<exists>loc'. loc' \<noteq> ModuleSocket \<and>
     shutdown_loop sd (map fst (connections ?s)) Unbound ?s =
       (Returned loc', ?s\<lparr>connections := filter (\<lambda>e. fst e \<notin> set (map fst (connections ?s))) (connections ?s)\<rparr>)"
    by (rule shutdown_loop_drains) (use assms in \<open>simp_all add: begin_shutdown_def emit_def\<close>)
  then obtain loc' where loc': "loc' \<noteq> ModuleSocket"
    "shutdown_loop sd (map fst (connections ?s)) Unbound ?s =
       (Returned loc', ?s\<lparr>connections := filter (\<lambda>e. fst e \<notin> set (map fst (connections ?s))) (connections ?s)\<rparr>)"
    by blast
  have empty: "filter (\<lambda>e. fst e \<notin> set (map fst (connections ?s))) (connections ?s) = []"
    by (simp add: filter_empty_conv)
  have srv: "name_SHUT_RDWR loc' = Inl AttributeError \<or> name_SHUT_RDWR loc' = Inl UnboundLocalError"
    using loc'(1) by (cases loc') (simp_all add: name_SHUT_RDWR_def)
  show ?thesis
    using assms(1) loc'(2) srv unfolding empty
    by (auto simp add: handle_shutdown_def with_lock_def close_server_def is_Exception_def
        begin_shutdown_def emit_def)
qed

lemma get_my_ip_state:
  "snd (get_my_ip probe st) =
     emit [SockCreateDgram (next_sock st), SockConnect (next_sock st) probe_address 1,
           SockClose (next_sock st)] (st\<lparr>next_sock := Suc (next_sock st)\<rparr>)"
  by (simp add: get_my_ip_def Let_def split: option.splits)

section \<open>Shutdown (C1)\<close>

text \<open>
  Claim C1: for every table with N live connections, \<^verbatim>\<open>handle_shutdown\<close> closes the
  socket of every live connection, removes every entry, closes the listening socket and
  surfaces no error.

  By \<open>handle_shutdown_result\<close> the call ends in \<^verbatim>\<open>SystemExit(0)\<close> with an empty table
  and the listening socket closed, for every N, and the only socket event it adds is the
  close of the listening socket. The sockets of the connections are neither shut down nor
  closed: at line 216 the name \<^verbatim>\<open>socket\<close> is the local variable bound at line 215, a
  socket object, so \<^verbatim>\<open>socket.SHUT_RDWR\<close> raises \<^verbatim>\<open>AttributeError\<close> before
  \<^verbatim>\<open>shutdown\<close> is called, the handler of line 218 passes over it, and \<^verbatim>\<open>close\<close> at
  line 217 is skipped. The theorem evaluates the call on the peer with one connection.
\<close>

theorem handle_shutdown_skips_close:
  "map_of (connections one_peer) 1 = Some (1, example_ip, 6000) \<and>
   fst (handle_shutdown (\<lambda>s. IoOk) one_peer) = Raised (SystemExit 0) \<and>
   connections (snd (handle_shutdown (\<lambda>s. IoOk) one_peer)) = [] \<and>
   closed (snd (handle_shutdown (\<lambda>s. IoOk) one_peer)) 0 \<and>
   \<not> closed (snd (handle_shutdown (\<lambda>s. IoOk) one_peer)) 1 \<and>
   SockShutdown 1 \<notin> set (trace (snd (handle_shutdown (\<lambda>s. IoOk) one_peer)))"
proof -
  have "\<not> lock_locked one_peer" "distinct (map fst (connections one_peer))"
    by (simp_all add: one_peer_eq)
  from handle_shutdown_result [OF this, of "\<lambda>s. IoOk"] show ?thesis
    by (simp add: emit_def closed_def one_peer_eq)
qed

section \<open>A write that fails (C2)\<close>

text \<open>
  Claim C2: when the write inside \<^verbatim>\<open>send_message\<close> fails, the connection is torn down
  through \<^verbatim>\<open>handle_disconnect\<close> (socket closed, entry removed) and the call returns
  failure.

  The handler of line 201 calls \<^verbatim>\<open>handle_disconnect\<close> at line 203 inside the
  \<^verbatim>\<open>with self.lock\<close> of line 192, and \<^verbatim>\<open>handle_disconnect\<close> acquires the same lock
  at line 107. The lock is not reentrant, so the call waits for itself: by
  \<open>send_message_failure_blocks\<close> it never returns, the entry stays in the table and the
  socket is not closed. The theorem evaluates the call on the peer with one connection.
\<close>

theorem send_message_write_error_blocks:
  "map_of (connections one_peer) 1 = Some (1, example_ip, 6000) \<and>
   fst (send_message IoError 1 [104, 105] one_peer) = Blocked \<and>
   connections (snd (send_message IoError 1 [104, 105] one_peer)) = connections one_peer \<and>
   \<not> closed (snd (send_message IoError 1 [104, 105] one_peer)) 1"
proof -
  have ok: "\<not> lock_locked one_peer" "map_of (connections one_peer) 1 = Some (1, example_ip, 6000)"
    by (simp_all add: one_peer_eq)
  have enc: "encode [104, 105] = Some [104, 105]"
    by (simp add: utf8_char_def)
  have "send_message IoError 1 [104, 105] one_peer =
      (Blocked, emit [SockSend 1 [104, 105], Print FailedToSend] (one_peer\<lparr>lock_locked := True\<rparr>))"
    by (rule send_message_failure_blocks [OF ok(1) _ ok(2) enc]) simp_all
  then show ?thesis
    using ok(2) by (simp add: emit_def closed_def one_peer_eq)
qed

section \<open>The length cap of send (C4, C10)\<close>

text \<open>
  Claim C4, as amended: for every message of more than 100 characters and every connection
  id, present in the table or not, \<^verbatim>\<open>send_message\<close> returns \<^verbatim>\<open>False\<close> having done
  nothing but print the rejection: the table is not looked up, the lock is not taken and
  nothing is written to a socket.
\<close>

theorem send_message_too_long:
  "100 < length message \<Longrightarrow>
     send_message wr conn_id message st = (Returned False, emit [Print TooLong] st)"
  by (simp add: send_message_def)

theorem send_message_too_long_witness:
  "send_message IoOk 7 (replicate 101 97) one_peer = (Returned False, emit [Print TooLong] one_peer)"
  using send_message_too_long [of "replicate 101 97" IoOk 7 one_peer] by simp

text \<open>
  The claim as stated speaks of the encoded length. A message of 51 characters \<open>U+00E9\<close>
  encodes to 102 bytes; it is not rejected, and the 102 bytes are written to the socket.
\<close>

theorem send_message_encoded_length_counterexample:
  "encode (replicate 51 233) = Some (concat (replicate 51 [195, 169])) \<and>
   length (concat (replicate 51 [195 :: nat, 169])) = 102 \<and>
   send_message IoOk 1 (replicate 51 233) one_peer =
     (Returned True,
      emit [SockSend 1 (concat (replicate 51 [195, 169])), Print (MessageSent 1)] one_peer)"
proof -
  have enc: "encode (replicate 51 233) = Some (concat (replicate 51 [195, 169]))"
    by (rule encode_replicate) (simp add: utf8_char_def)
  have len: "length (concat (replicate 51 [195 :: nat, 169])) = 102"
    by (simp add: length_concat_replicate)
  have "send_message IoOk 1 (replicate 51 233) one_peer =
     (Returned True,
      emit [SockSend 1 (concat (replicate 51 [195, 169])), Print (MessageSent 1)] one_peer)"
    unfolding send_message_def with_lock_def using enc
    by (simp add: one_peer_eq emit_def)
  with enc len show ?thesis by simp
qed

text \<open>
  Claim C10: the cap is strict and counts characters. The call ends in the rejection
  exactly when the message has more than 100 characters, whatever its encoding is; a
  message of exactly 100 characters goes on to the lookup of the id (not found: reported)
  and, when the id is there, to the write of its encoding on the socket of the record.
\<close>

theorem send_message_cap_counts_characters:
  "((send_message wr conn_id message st = (Returned False, emit [Print TooLong] st))
      = (100 < length message)) \<and>
   (length message = 100 \<and> \<not> lock_locked st \<longrightarrow>
      (map_of (connections st) conn_id = None \<longrightarrow>
         send_message wr conn_id message st =
           (Returned False, emit [Print (DoesNotExist conn_id)] st)) \<and>
      (\<forall>sk addr prt data.
         map_of (connections st) conn_id = Some (sk, addr, prt) \<and> encode message = Some data \<longrightarrow>
           trace (snd (send_message wr conn_id message st)) =
             trace st @ [SockSend sk data,
                         if wr = IoOk then Print (MessageSent conn_id) else Print FailedToSend]))"
proof -
  have decided: "(send_message wr conn_id message st = (Returned False, emit [Print TooLong] st))
      = (100 < length message)"
  proof (cases "100 < length message")
    case True
    then show ?thesis by (simp add: send_message_def)
  next
    case False
    then have "send_message wr conn_id message st \<noteq> (Returned False, emit [Print TooLong] st)"
      by (auto simp add: send_message_def with_lock_def send_failed_def handle_disconnect_def
          and_return_def emit_def split: option.splits dest: arg_cong [where f = trace])
    with False show ?thesis by simp
  qed
  have proceeds: "length message = 100 \<and> \<not> lock_locked st \<longrightarrow>
      (map_of (connections st) conn_id = None \<longrightarrow>
         send_message wr conn_id message st =
           (Returned False, emit [Print (DoesNotExist conn_id)] st)) \<and>
      (\<forall>sk addr prt data.
         map_of (connections st) conn_id = Some (sk, addr, prt) \<and> encode message = Some data \<longrightarrow>
           trace (snd (send_message wr conn_id message st)) =
             trace st @ [SockSend sk data,
                         if wr = IoOk then Print (MessageSent conn_id) else Print FailedToSend])"
    by (auto simp add: send_message_def with_lock_def send_failed_def handle_disconnect_def
        and_return_def emit_def)
  from decided proceeds show ?thesis by (rule conjI)
qed

theorem send_message_cap_counts_characters_witness:
  "length (replicate 100 (8364 :: nat)) = 100 \<and>
   encode (replicate 100 8364) = Some (concat (replicate 100 [226, 130, 172])) \<and>
   length (concat (replicate 100 [226 :: nat, 130, 172])) = 300 \<and>
   send_message IoOk 1 (replicate 100 8364) one_peer
     \<noteq> (Returned False, emit [Print TooLong] one_peer) \<and>
   trace (snd (send_message IoOk 1 (replicate 100 8364) one_peer)) =
     trace one_peer @ [SockSend 1 (concat (replicate 100 [226, 130, 172])), Print (MessageSent 1)]"
proof -
  have enc: "encode (replicate 100 8364) = Some (concat (replicate 100 [226, 130, 172]))"
    by (rule encode_replicate) (simp add: utf8_char_def)
  have st: "\<not> lock_locked one_peer" "map_of (connections one_peer) 1 = Some (1, example_ip, 6000)"
    by (simp_all add: one_peer_eq)
  show ?thesis
    using send_message_cap_counts_characters [of IoOk 1 "replicate 100 8364" one_peer] enc st
    by (simp add: length_concat_replicate)
qed

section \<open>Terminate (C7)\<close>

text \<open>
  Claim C7: for an id of the table, \<^verbatim>\<open>terminate_connection\<close> closes the socket of the
  record, removes the entry and returns \<^verbatim>\<open>True\<close>; a second call on the same id prints
  that the connection does not exist, returns \<^verbatim>\<open>False\<close>, and changes neither a socket
  nor the table.
\<close>

theorem terminate_connection_once:
  assumes "\<not> lock_locked st" and "map_of (connections st) conn_id = Some (sk, addr, prt)"
  shows "terminate_connection conn_id st =
           (Returned True,
            emit [SockClose sk, Print (Terminated conn_id addr prt)]
              (st\<lparr>connections := AList.delete conn_id (connections st)\<rparr>)) \<and>
         conn_id \<notin> set (live (snd (terminate_connection conn_id st))) \<and>
         terminate_connection conn_id (snd (terminate_connection conn_id st)) =
           (Returned False,
            emit [Print (DoesNotExist conn_id)] (snd (terminate_connection conn_id st)))"
proof -
  let ?st1 = "emit [SockClose sk, Print (Terminated conn_id addr prt)]
                (st\<lparr>connections := AList.delete conn_id (connections st)\<rparr>)"
  have first: "terminate_connection conn_id st = (Returned True, ?st1)"
    using assms by (simp add: terminate_connection_def with_lock_def emit_def)
  have gone: "map_of (connections ?st1) conn_id = None"
    by (simp add: emit_def AList.delete_conv')
  have unlocked: "\<not> lock_locked ?st1"
    using assms by (simp add: emit_def)
  have second: "terminate_connection conn_id ?st1 =
      (Returned False, emit [Print (DoesNotExist conn_id)] ?st1)"
    using gone unlocked by (simp add: terminate_connection_def with_lock_def emit_def)
  have "conn_id \<notin> set (live ?st1)"
    using gone by (simp add: live_def map_of_eq_None_iff)
  with first second show ?thesis by simp
qed

theorem terminate_connection_once_witness:
  "terminate_connection 1 one_peer =
     (Returned True,
      emit [SockClose 1, Print (Terminated 1 example_ip 6000)] (one_peer\<lparr>connections := []\<rparr>)) \<and>
   terminate_connection 1 (snd (terminate_connection 1 one_peer)) =
     (Returned False, emit [Print (DoesNotExist 1)] (snd (terminate_connection 1 one_peer)))"
proof -
  have "\<not> lock_locked one_peer" "map_of (connections one_peer) 1 = Some (1, example_ip, 6000)"
    by (simp_all add: one_peer_eq)
  from terminate_connection_once [OF this]
  have "terminate_connection 1 one_peer =
          (Returned True,
           emit [SockClose 1, Print (Terminated 1 example_ip 6000)]
             (one_peer\<lparr>connections := AList.delete 1 (connections one_peer)\<rparr>)) \<and>
        terminate_connection 1 (snd (terminate_connection 1 one_peer)) =
          (Returned False, emit [Print (DoesNotExist 1)] (snd (terminate_connection 1 one_peer)))"
    by blast
  moreover have "AList.delete 1 (connections one_peer) = []"
    by (simp add: one_peer_eq)
  ultimately show ?thesis by (elim conjE) simp
qed

section \<open>The listener and the running flag (C3, C9)\<close>

text \<open>
  Claim C3, as amended: the listener reads the running flag at the head of its loop (line
  48) and in the handler of lines 76-78, where the flag decides only whether the error is
  printed. When it reads \<^verbatim>\<open>False\<close> at the head it leaves the loop and neither accepts,
  completes a handshake nor registers. An iteration whose \<^verbatim>\<open>accept\<close> has returned does
  not consult the flag before it registers: when the handshake succeeds and the lock is
  free it writes its port to the accepted socket, stores the record under the next id and
  starts the handler thread, whatever the flag is. No iteration closes a socket. The flag
  changes nothing of an iteration but the error lines it prints.
\<close>

theorem listener_leaves_at_loop_head_not_in_flight:
  "(\<not> running st \<longrightarrow> accept_connections lib inps st = (LoopExit, st)) \<and>
   (acc inp = Accepted addr \<and> hs_recv inp = Received b \<and>
    int_of_bytes lib b = Some their_port \<and> encode (str_int (port st)) = Some data \<and>
    hs_send inp = IoOk \<and> \<not> lock_locked st \<longrightarrow>
      accept_iteration lib inp st =
        (Returned (),
         emit [SockAccept (next_sock st), SockSetTimeout (next_sock st), SockRecv (next_sock st),
               SockSend (next_sock st) data, Print (NewConnection addr their_port), Print Prompt,
               Spawn (connection_counter st + 1) (next_sock st) addr]
           (st\<lparr>next_sock := Suc (next_sock st),
               connection_counter := connection_counter st + 1,
               connections := AList.update (connection_counter st + 1)
                                (next_sock st, addr, their_port) (connections st)\<rparr>))) \<and>
   (\<forall>s. closed (snd (accept_iteration lib inp st)) s = closed st s) \<and>
   fst (accept_iteration lib inp (st\<lparr>running := flag\<rparr>)) = fst (accept_iteration lib inp st) \<and>
   (snd (accept_iteration lib inp (st\<lparr>running := flag\<rparr>)))
      \<lparr>running := running st,
       trace := filter (\<lambda>e. e \<noteq> Print ErrorAccepting)
                  (trace (snd (accept_iteration lib inp (st\<lparr>running := flag\<rparr>))))\<rparr> =
   (snd (accept_iteration lib inp st))
      \<lparr>trace := filter (\<lambda>e. e \<noteq> Print ErrorAccepting)
                  (trace (snd (accept_iteration lib inp st)))\<rparr>"
proof -
  have head: "\<not> running st \<longrightarrow> accept_connections lib inps st = (LoopExit, st)"
    by (cases inps) simp_all
  have reg: "acc inp = Accepted addr \<and> hs_recv inp = Received b \<and>
      int_of_bytes lib b = Some their_port \<and> encode (str_int (port st)) = Some data \<and>
      hs_send inp = IoOk \<and> \<not> lock_locked st \<longrightarrow>
      accept_iteration lib inp st =
        (Returned (),
         emit [SockAccept (next_sock st), SockSetTimeout (next_sock st), SockRecv (next_sock st),
               SockSend (next_sock st) data, Print (NewConnection addr their_port), Print Prompt,
               Spawn (connection_counter st + 1) (next_sock st) addr]
           (st\<lparr>next_sock := Suc (next_sock st),
               connection_counter := connection_counter st + 1,
               connections := AList.update (connection_counter st + 1)
                                (next_sock st, addr, their_port) (connections st)\<rparr>))"
    by (intro impI, elim conjE) (rule accept_iteration_registers)
  have cl: "\<forall>s. closed (snd (accept_iteration lib inp st)) s = closed st s"
    by (simp add: accept_iteration_closes_nothing)
  from head reg cl accept_iteration_flag_prints_only [where lib = lib and inp = inp and st = st and b = flag]
  show ?thesis by (intro conjI) (simp_all only: simp_thms)
qed

theorem listener_leaves_at_loop_head_not_in_flight_witness:
  "accept_connections example_lib [good_accept] (begin_shutdown (ChatPeer_init 5000)) =
     (LoopExit, begin_shutdown (ChatPeer_init 5000)) \<and>
   accept_iteration example_lib good_accept (begin_shutdown (ChatPeer_init 5000)) =
     (Returned (),
      emit [SockAccept 1, SockSetTimeout 1, SockRecv 1, SockSend 1 [53, 48, 48, 48],
            Print (NewConnection example_ip 6000), Print Prompt, Spawn 1 1 example_ip]
        ((begin_shutdown (ChatPeer_init 5000))
           \<lparr>next_sock := 2, connection_counter := 1,
            connections := [(1, 1, example_ip, 6000)]\<rparr>)) \<and>
   \<not> closed (snd (accept_iteration example_lib good_accept (begin_shutdown (ChatPeer_init 5000)))) 1"
proof -
  let ?st = "begin_shutdown (ChatPeer_init 5000)"
  have st: "\<not> running ?st" "\<not> lock_locked ?st" "port ?st = 5000" "next_sock ?st = 1"
    "connection_counter ?st = 0" "connections ?st = []" "\<not> closed ?st 1"
    by (simp_all add: begin_shutdown_def ChatPeer_init_def emit_def closed_def)
  have inp: "acc good_accept = Accepted example_ip" "hs_recv good_accept = Received [54, 48, 48, 48]"
    "hs_send good_accept = IoOk" "int_of_bytes example_lib [54, 48, 48, 48] = Some 6000"
    by (simp_all add: good_accept_def int_of_bytes_def example_lib_def)
  have enc: "encode (str_int (port ?st)) = Some [53, 48, 48, 48]"
    by (simp add: st(3) str_int_def utf8_char_def)
  note t = listener_leaves_at_loop_head_not_in_flight
    [of ?st example_lib "[good_accept]" good_accept example_ip "[54, 48, 48, 48]" 6000
        "[53, 48, 48, 48]" True]
  from t st(1) have a: "accept_connections example_lib [good_accept] ?st = (LoopExit, ?st)"
    by blast
  from t inp enc st(2) have b: "accept_iteration example_lib good_accept ?st =
        (Returned (),
         emit [SockAccept (next_sock ?st), SockSetTimeout (next_sock ?st), SockRecv (next_sock ?st),
               SockSend (next_sock ?st) [53, 48, 48, 48], Print (NewConnection example_ip 6000),
               Print Prompt, Spawn (connection_counter ?st + 1) (next_sock ?st) example_ip]
           (?st\<lparr>next_sock := Suc (next_sock ?st),
               connection_counter := connection_counter ?st + 1,
               connections := AList.update (connection_counter ?st + 1)
                                (next_sock ?st, example_ip, 6000) (connections ?st)\<rparr>))"
    by blast
  from t st(7) have c: "\<not> closed (snd (accept_iteration example_lib good_accept ?st)) 1"
    by blast
  have b': "accept_iteration example_lib good_accept ?st =
     (Returned (),
      emit [SockAccept 1, SockSetTimeout 1, SockRecv 1, SockSend 1 [53, 48, 48, 48],
            Print (NewConnection example_ip 6000), Print Prompt, Spawn 1 1 example_ip]
        (?st\<lparr>next_sock := 2, connection_counter := 1,
            connections := [(1, 1, example_ip, 6000)]\<rparr>))"
    unfolding b st(4,5,6) by (simp add: numeral_2_eq_2)
  from a b' c show ?thesis by (intro conjI)
qed

text \<open>
  The claim as stated fails for the iteration in flight. The flag is cleared (lines
  208-209) while the listener waits in \<^verbatim>\<open>accept\<close>; \<^verbatim>\<open>accept\<close> then returns a client
  socket. The iteration completes the handshake on that socket, inserts record 1 into the
  table and does not close the socket.
\<close>

theorem accept_after_flag_cleared_counterexample:
  "\<not> running (begin_shutdown (ChatPeer_init 5000)) \<and>
   connections (begin_shutdown (ChatPeer_init 5000)) = [] \<and>
   fst (accept_iteration example_lib good_accept (begin_shutdown (ChatPeer_init 5000))) = Returned () \<and>
   connections (snd (accept_iteration example_lib good_accept (begin_shutdown (ChatPeer_init 5000))))
     = [(1, 1, example_ip, 6000)] \<and>
   \<not> closed (snd (accept_iteration example_lib good_accept (begin_shutdown (ChatPeer_init 5000)))) 1 \<and>
   SockSend 1 [53, 48, 48, 48]
     \<in> set (trace (snd (accept_iteration example_lib good_accept (begin_shutdown (ChatPeer_init 5000)))))"
  by (simp add: accept_iteration_def good_accept_def example_lib_def begin_shutdown_def
      ChatPeer_init_def emit_def int_of_bytes_def with_lock_def register_def str_int_def
      utf8_char_def closed_def Let_def)

text \<open>
  Claim C9: when the handshake payload of an accepted connection does not decode as an
  integer, the iteration ends in the second handler: the error is printed, no record is
  created, no thread is started and nothing more is done with the accepted socket, and the
  loop goes on with its next iteration.
\<close>

theorem accept_bad_handshake_dropped:
  assumes "running st" and "acc inp = Accepted addr" and "hs_recv inp = Received b"
    and "int_of_bytes lib b = None"
  shows "accept_iteration lib inp st =
           (Returned (),
            emit [SockAccept (next_sock st), SockSetTimeout (next_sock st),
                  SockRecv (next_sock st), Print ErrorAccepting]
              (st\<lparr>next_sock := Suc (next_sock st)\<rparr>)) \<and>
         connections (snd (accept_iteration lib inp st)) = connections st \<and>
         running (snd (accept_iteration lib inp st)) \<and>
         accept_connections lib (inp # rest) st =
           accept_connections lib rest (snd (accept_iteration lib inp st))"
proof -
  have it: "accept_iteration lib inp st =
           (Returned (),
            emit [SockAccept (next_sock st), SockSetTimeout (next_sock st),
                  SockRecv (next_sock st), Print ErrorAccepting]
              (st\<lparr>next_sock := Suc (next_sock st)\<rparr>))"
    using assms by (simp add: accept_iteration_def accept_error_def emit_def Let_def)
  then show ?thesis
    using assms(1) by (simp add: emit_def)
qed

theorem accept_bad_handshake_dropped_witness:
  "accept_iteration example_lib bad_accept (ChatPeer_init 5000) =
     (Returned (),
      emit [SockAccept 1, SockSetTimeout 1, SockRecv 1, Print ErrorAccepting]
        ((ChatPeer_init 5000)\<lparr>next_sock := 2\<rparr>)) \<and>
   connections (snd (accept_connections example_lib [bad_accept, good_accept] (ChatPeer_init 5000)))
     = [(1, 2, example_ip, 6000)]"
proof -
  let ?s1 = "emit [SockAccept 1, SockSetTimeout 1, SockRecv 1, Print ErrorAccepting]
        ((ChatPeer_init 5000)\<lparr>next_sock := 2\<rparr>)"
  have h: "running (ChatPeer_init 5000)" "acc bad_accept = Accepted example_ip"
    "hs_recv bad_accept = Received [104, 105]" "int_of_bytes example_lib [104, 105] = None"
    by (simp_all add: ChatPeer_init_def bad_accept_def int_of_bytes_def example_lib_def)
  note t = accept_bad_handshake_dropped [OF h, of "[good_accept]"]
  have nxt: "next_sock (ChatPeer_init 5000) = 1" by (simp add: ChatPeer_init_def)
  from t [THEN conjunct1]
  have it: "accept_iteration example_lib bad_accept (ChatPeer_init 5000) = (Returned (), ?s1)"
    by (simp add: nxt numeral_2_eq_2)
  from t have "accept_connections example_lib [bad_accept, good_accept] (ChatPeer_init 5000) =
      accept_connections example_lib [good_accept]
        (snd (accept_iteration example_lib bad_accept (ChatPeer_init 5000)))"
    by blast
  then have lp: "accept_connections example_lib [bad_accept, good_accept] (ChatPeer_init 5000) =
      accept_connections example_lib [good_accept] ?s1"
    by (simp only: it snd_conv)
  have second: "connections (snd (accept_connections example_lib [good_accept] ?s1)) =
      [(1, 2, example_ip, 6000)]"
    by (simp add: accept_iteration_def good_accept_def example_lib_def
      ChatPeer_init_def emit_def int_of_bytes_def with_lock_def register_def str_int_def
      utf8_char_def Let_def)
  from it second show ?thesis by (simp only: lp simp_thms)
qed

section \<open>The dialer (C5, C6)\<close>




text \<open>
  Claim C6: when the connect, the write or the read of the handshake fails, or the reply
  is not an integer, \<^verbatim>\<open>connect_to_peer\<close> returns \<^verbatim>\<open>False\<close> and the table and the
  counter are as before.
\<close>

theorem connect_to_peer_error_no_record:
  assumes "inet_aton lib ip \<noteq> AtonValueError"
    and "d_connect inp \<noteq> IoOk \<or> d_send inp \<noteq> IoOk \<or> d_recv inp = RecvTimeout \<or>
         d_recv inp = RecvError \<or> (\<exists>b. d_recv inp = Received b \<and> int_of_bytes lib b = None)"
  shows "fst (connect_to_peer lib inp ip prt st) = Returned False \<and>
         connections (snd (connect_to_peer lib inp ip prt st)) = connections st \<and>
         connection_counter (snd (connect_to_peer lib inp ip prt st)) = connection_counter st"
proof -
  have d: "fst (dial lib inp ip prt s) = Returned False \<and>
      connections (snd (dial lib inp ip prt s)) = connections s \<and>
      connection_counter (snd (dial lib inp ip prt s)) = connection_counter s" for s
    using assms(2)
    by (auto simp add: dial_def connection_failed_def emit_def Let_def
        split: option.splits recv_outcome.splits)
  obtain my_ip st1 where g: "get_my_ip (my_ip_probe inp) st = (my_ip, st1)"
    by (cases "get_my_ip (my_ip_probe inp) st")
  have p: "connections st1 = connections st" "connection_counter st1 = connection_counter st"
    using get_my_ip_state [of "my_ip_probe inp" st] g by (simp_all add: emit_def)
  show ?thesis
    using assms(1) d [of st1] p
    by (cases "inet_aton lib ip") (simp_all add: connect_to_peer_def g emit_def)
qed

theorem connect_to_peer_error_no_record_witness:
  "fst (connect_to_peer example_lib
       \<lparr>my_ip_probe = None, d_connect = IoOk, d_send = IoOk, d_recv = Received [104, 105]\<rparr>
       example_ip 7000 one_peer) = Returned False \<and>
   connections (snd (connect_to_peer example_lib
       \<lparr>my_ip_probe = None, d_connect = IoOk, d_send = IoOk, d_recv = Received [104, 105]\<rparr>
       example_ip 7000 one_peer)) = [(1, 1, example_ip, 6000)] \<and>
   SockCreate 3 \<in> set (trace (snd (connect_to_peer example_lib
       \<lparr>my_ip_probe = None, d_connect = IoOk, d_send = IoOk, d_recv = Received [104, 105]\<rparr>
       example_ip 7000 one_peer)))"
proof -
  let ?inp = "\<lparr>my_ip_probe = None, d_connect = IoOk, d_send = IoOk, d_recv = Received [104, 105]\<rparr>"
  have h1: "inet_aton example_lib example_ip \<noteq> AtonValueError"
    by (simp add: example_lib_def)
  have h2: "d_connect ?inp \<noteq> IoOk \<or> d_send ?inp \<noteq> IoOk \<or> d_recv ?inp = RecvTimeout \<or>
         d_recv ?inp = RecvError \<or> (\<exists>b. d_recv ?inp = Received b \<and> int_of_bytes example_lib b = None)"
    by (simp add: int_of_bytes_def example_lib_def)
  have attempted: "SockCreate 3 \<in> set (trace (snd (connect_to_peer example_lib ?inp example_ip 7000 one_peer)))"
    by (simp add: connect_to_peer_def get_my_ip_def dial_def connection_failed_def emit_def
        Let_def one_peer_eq example_lib_def int_of_bytes_def str_int_def utf8_char_def
        example_ip_def localhost_def)
  from connect_to_peer_error_no_record [OF h1 h2, of 7000 one_peer] attempted
  show ?thesis by (simp add: one_peer_eq)
qed

section \<open>The table along a run (C8)\<close>

subsection \<open>What each call does to the table\<close>

lemma handle_disconnect_change: "table_change st (snd (handle_disconnect conn_id st))"
  by (auto simp add: table_change_def handle_disconnect_def with_lock_def emit_def closed_def
      split: option.splits)

lemma terminate_connection_change: "table_change st (snd (terminate_connection conn_id st))"
  by (auto simp add: table_change_def terminate_connection_def with_lock_def emit_def closed_def
      split: option.splits)

lemma send_message_change: "table_change st (snd (send_message wr conn_id message st))"
  by (auto simp add: table_change_def send_message_def send_failed_def and_return_def
      handle_disconnect_def with_lock_def emit_def closed_def
      split: option.splits)

lemma begin_shutdown_change: "table_change st (begin_shutdown st)"
  by (simp add: table_change_def begin_shutdown_def emit_def closed_def)

lemma accept_iteration_change: "table_change st (snd (accept_iteration lib inp st))"
  by (auto simp add: table_change_def accept_iteration_def accept_error_def with_lock_def
      register_def emit_def closed_def Let_def
      split: accept_outcome.splits recv_outcome.splits option.splits io_outcome.splits)

lemma handle_connection_iteration_change:
  "table_change st (snd (handle_connection_iteration lib rd conn_id sk addr st))"
  by (auto simp add: table_change_def handle_connection_iteration_def reader_error_def
      and_return_def handle_disconnect_def with_lock_def emit_def closed_def Let_def
      split: recv_outcome.splits option.splits)

lemma dial_change:
  "server_socket (snd (dial lib inp ip prt st)) = server_socket st \<and>
   next_sock (snd (dial lib inp ip prt st)) = Suc (next_sock st) \<and>
   (\<forall>s. closed (snd (dial lib inp ip prt st)) s \<longrightarrow> closed st s) \<and>
   ((connections (snd (dial lib inp ip prt st)) = connections st \<and>
     connection_counter (snd (dial lib inp ip prt st)) = connection_counter st) \<or>
    (\<exists>their_port. connections (snd (dial lib inp ip prt st)) =
        AList.update (connection_counter st + 1) (next_sock st, ip, their_port) (connections st) \<and>
      connection_counter (snd (dial lib inp ip prt st)) = connection_counter st + 1))"
  by (auto simp add: dial_def connection_failed_def with_lock_def
      register_def emit_def closed_def Let_def
      split: recv_outcome.splits option.splits result.splits)

lemma connect_to_peer_change: "table_change st (snd (connect_to_peer lib inp ip prt st))"
proof -
  obtain my_ip st1 where g: "get_my_ip (my_ip_probe inp) st = (my_ip, st1)"
    by (cases "get_my_ip (my_ip_probe inp) st")
  have st1: "st1 = emit [SockCreateDgram (next_sock st), SockConnect (next_sock st) probe_address 1,
           SockClose (next_sock st)] (st\<lparr>next_sock := Suc (next_sock st)\<rparr>)"
    using get_my_ip_state [of "my_ip_probe inp" st] g by simp
  have probe: "server_socket st1 = server_socket st" "next_sock st1 = Suc (next_sock st)"
    "connections st1 = connections st" "connection_counter st1 = connection_counter st"
    "\<And>s. closed st1 s = (closed st s \<or> s = next_sock st)"
    by (auto simp add: st1 emit_def closed_def)
  have early: "table_change st (emit [Print l] st1)" for l
    by (auto simp add: table_change_def st1 emit_def closed_def)
  have dialled: "table_change st (snd (dial lib inp ip prt st1))"
    using dial_change [of lib inp ip prt st1]
    by (simp add: table_change_def probe) fastforce
  show ?thesis
    using early dialled
    by (cases "inet_aton lib ip")
      (simp_all add: connect_to_peer_def g, simp_all add: table_change_def emit_def closed_def)
qed

lemma handle_shutdown_change:
  assumes "distinct (map fst (connections st))"
  shows "table_change st (snd (handle_shutdown sd st))"
proof (cases "lock_locked st")
  case True
  then have "handle_shutdown sd st = (Blocked, begin_shutdown st)"
    by (simp add: handle_shutdown_def with_lock_def begin_shutdown_def emit_def)
  then show ?thesis by (simp add: begin_shutdown_change)
next
  case False
  from handle_shutdown_result [OF False assms, of sd] show ?thesis
    by (simp add: table_change_def emit_def closed_def)
qed

lemma exec_change: "distinct (map fst (connections st)) \<Longrightarrow> table_change st (exec lib a st)"
  by (cases a)
    (simp_all add: accept_iteration_change handle_connection_iteration_change
      connect_to_peer_change terminate_connection_change send_message_change
      begin_shutdown_change handle_shutdown_change)

subsection \<open>The properties are kept\<close>

lemma sockets_known_iff:
  "sockets_known st =
     (server_socket st < next_sock st \<and>
      distinct (map (fst \<circ> snd) (connections st)) \<and>
      (\<forall>(k, sk, addr, prt) \<in> set (connections st). sk < next_sock st) \<and>
      (\<forall>s. closed st s \<longrightarrow> s < next_sock st))"
  by (auto simp add: sockets_known_def closed_def split: event.splits)

lemma update_fresh: "k \<notin> fst ` set al \<Longrightarrow> AList.update k v al = al @ [(k, v)]"
  by (induction al) auto

lemma table_ok_same:
  assumes ok: "table_ok st"
    and "server_socket st' = server_socket st" and "next_sock st \<le> next_sock st'"
    and "connections st' = connections st" and "connection_counter st' = connection_counter st"
    and cl: "\<forall>s. closed st' s \<longrightarrow> closed st s \<or> (next_sock st \<le> s \<and> s < next_sock st')"
  shows "table_ok st'"
proof -
  from ok have so: "sockets_open st" and ia: "ids_assigned st" and sk: "sockets_known st"
    by (simp_all add: table_ok_def)
  have "sockets_open st'"
    using so sk cl assms(4) unfolding sockets_open_def sockets_known_iff by fastforce
  moreover have "ids_assigned st'"
    using ia assms(4,5) by (simp add: ids_assigned_def live_def)
  moreover have "sockets_known st'"
    using sk cl assms(2,3,4) unfolding sockets_known_iff by fastforce
  ultimately show ?thesis by (simp add: table_ok_def)
qed

lemma table_ok_registered:
  assumes ok: "table_ok st"
    and "server_socket st' = server_socket st"
    and c: "connections st' =
        AList.update (connection_counter st + 1) (sk, addr, prt) (connections st)"
    and n: "connection_counter st' = connection_counter st + 1"
    and fresh: "next_sock st \<le> sk" "sk < next_sock st'"
    and cl: "\<forall>s. closed st' s \<longrightarrow>
        closed st s \<or> (next_sock st \<le> s \<and> s < next_sock st' \<and> s \<noteq> sk)"
  shows "table_ok st'"
proof -
  from ok have so: "sockets_open st" and ia: "ids_assigned st" and skn: "sockets_known st"
    by (simp_all add: table_ok_def)
  have new: "connection_counter st + 1 \<notin> fst ` set (connections st)"
    using ia by (fastforce simp add: ids_assigned_def live_def)
  have c': "connections st' = connections st @ [(connection_counter st + 1, sk, addr, prt)]"
    using c update_fresh [OF new] by simp
  have le: "next_sock st \<le> next_sock st'" using fresh by simp
  have old: "\<forall>(k, s, a, p) \<in> set (connections st). s < next_sock st \<and> \<not> closed st s"
    using so skn unfolding sockets_open_def sockets_known_iff by fastforce
  have notcl: "\<not> closed st sk"
    using skn fresh(1) unfolding sockets_known_iff by fastforce
  have "sockets_open st'"
    using old cl notcl unfolding sockets_open_def c' by fastforce
  moreover have "ids_assigned st'"
    using ia new unfolding ids_assigned_def live_def c' n by fastforce
  moreover have "sockets_known st'"
  proof -
    have "sk \<notin> (fst \<circ> snd) ` set (connections st)"
      using old fresh(1) by fastforce
    then have "distinct (map (fst \<circ> snd) (connections st'))"
      using skn unfolding sockets_known_iff c' by simp
    moreover have "\<forall>(k, s, a, p) \<in> set (connections st'). s < next_sock st'"
      using old le fresh(2) unfolding c' by fastforce
    moreover have "\<forall>s. closed st' s \<longrightarrow> s < next_sock st'"
      using cl skn le unfolding sockets_known_iff by fastforce
    moreover have "server_socket st' < next_sock st'"
      using skn le assms(2) unfolding sockets_known_iff by simp
    ultimately show ?thesis unfolding sockets_known_iff by simp
  qed
  ultimately show ?thesis by (simp add: table_ok_def)
qed

lemma table_ok_removed:
  assumes ok: "table_ok st"
    and "server_socket st' = server_socket st" and le: "next_sock st \<le> next_sock st'"
    and m: "map_of (connections st) k = Some (sk, addr, prt)"
    and c: "connections st' = AList.delete k (connections st)"
    and n: "connection_counter st' = connection_counter st"
    and cl: "\<forall>s. closed st' s \<longrightarrow> closed st s \<or> s = sk"
  shows "table_ok st'"
proof -
  from ok have so: "sockets_open st" and ia: "ids_assigned st" and skn: "sockets_known st"
    by (simp_all add: table_ok_def)
  have c': "connections st' = filter (\<lambda>e. fst e \<noteq> k) (connections st)"
    unfolding c AList.delete_eq by (rule filter_cong) auto
  have mem: "(k, sk, addr, prt) \<in> set (connections st)"
    using m by (rule map_of_SomeD)
  have inj: "inj_on (fst \<circ> snd) (set (connections st))"
    using skn unfolding sockets_known_iff by (simp add: distinct_map)
  have other: "s \<noteq> sk" if "(k', s, a, p) \<in> set (connections st)" "k' \<noteq> k" for k' s a p
  proof
    assume "s = sk"
    with inj that(1) mem have "(k', s, a, p) = (k, sk, addr, prt)"
      by (auto dest!: inj_onD [where x = "(k', s, a, p)" and y = "(k, sk, addr, prt)"])
    with that(2) show False by simp
  qed
  have "sockets_open st'"
    using so cl other unfolding sockets_open_def c' by fastforce
  moreover have "ids_assigned st'"
    using ia unfolding ids_assigned_def live_def c' n by (auto simp add: distinct_map_filter)
  moreover have "sockets_known st'"
  proof -
    have "sk < next_sock st"
      using skn mem unfolding sockets_known_iff by fastforce
    then show ?thesis
      using skn cl le assms(2) unfolding sockets_known_iff c'
      by (fastforce simp add: distinct_map_filter)
  qed
  ultimately show ?thesis by (simp add: table_ok_def)
qed

lemma table_ok_drained:
  assumes ok: "table_ok st"
    and "server_socket st' = server_socket st" and le: "next_sock st \<le> next_sock st'"
    and c: "connections st' = []"
    and cl: "\<forall>s. closed st' s \<longrightarrow> closed st s \<or> s = server_socket st"
  shows "table_ok st'"
proof -
  from ok have skn: "sockets_known st" by (simp add: table_ok_def)
  have "sockets_known st'"
    using skn cl le assms(2) c unfolding sockets_known_iff by fastforce
  then show ?thesis
    by (simp add: table_ok_def sockets_open_def ids_assigned_def live_def c)
qed

lemma table_ok_change: "table_ok st \<Longrightarrow> table_change st st' \<Longrightarrow> table_ok st'"
  unfolding table_change_def
  by (elim conjE disjE exE)
    (erule (5) table_ok_same, erule (6) table_ok_registered, erule (6) table_ok_removed,
     erule (4) table_ok_drained)

lemma table_ok_init: "table_ok (ChatPeer_init p)"
  by (simp add: table_ok_def sockets_open_def ids_assigned_def sockets_known_def live_def
      ChatPeer_init_def)

lemma table_ok_exec: "table_ok st \<Longrightarrow> table_ok (exec lib a st)"
  by (rule table_ok_change [OF _ exec_change]) (simp_all add: table_ok_def ids_assigned_def live_def)

lemma table_ok_run: "table_ok st \<Longrightarrow> table_ok (run lib acts st)"
  unfolding run_def by (induction acts arbitrary: st) (simp_all add: table_ok_exec)

lemma run_append: "run lib (xs @ ys) st = run lib ys (run lib xs st)"
  by (simp add: run_def)

lemma change_ids:
  assumes "table_ok st" and "table_change st st'"
  shows "connection_counter st \<le> connection_counter st' \<and>
         (\<forall>k \<in> set (live st'). k \<in> set (live st) \<or> connection_counter st < k)"
proof -
  from assms(1) have new: "connection_counter st + 1 \<notin> fst ` set (connections st)"
    by (fastforce simp add: table_ok_def ids_assigned_def live_def)
  from assms(2) show ?thesis
    unfolding table_change_def live_def
    by (elim conjE disjE exE) (auto simp add: update_fresh [OF new] AList.delete_eq)
qed

lemma run_ids:
  "table_ok st \<Longrightarrow>
     connection_counter st \<le> connection_counter (run lib acts st) \<and>
     (\<forall>k \<in> set (live (run lib acts st)). k \<in> set (live st) \<or> connection_counter st < k)"
proof (induction acts arbitrary: st)
  case Nil
  then show ?case by (simp add: run_def)
next
  case (Cons a acts)
  have step: "table_change st (exec lib a st)"
    using Cons.prems by (intro exec_change) (simp add: table_ok_def ids_assigned_def live_def)
  note one = change_ids [OF Cons.prems step]
  note rest = Cons.IH [OF table_ok_exec [OF Cons.prems, of lib a]]
  have r: "run lib (a # acts) st = run lib acts (exec lib a st)"
    by (simp add: run_def)
  from one rest show ?case
    unfolding r by fastforce
qed

lemma close_removes:
  assumes ok: "table_ok st" and ch: "table_change st st'"
    and mem: "(k, sk, addr, prt) \<in> set (connections st)" and cl: "closed st' sk"
  shows "k \<notin> set (live st')"
proof -
  from ok have so: "sockets_open st" and skn: "sockets_known st" and ia: "ids_assigned st"
    by (simp_all add: table_ok_def)
  from so mem have notcl: "\<not> closed st sk"
    unfolding sockets_open_def by fastforce
  from skn mem have old: "sk < next_sock st"
    unfolding sockets_known_iff by fastforce
  have inj: "inj_on (fst \<circ> snd) (set (connections st))"
    using skn unfolding sockets_known_iff by (simp add: distinct_map)
  have removed: "k \<notin> set (live st')"
    if m: "map_of (connections st) k0 = Some (sk0, a0, p0)"
      and c: "connections st' = AList.delete k0 (connections st)"
      and only: "\<forall>s. closed st' s \<longrightarrow> closed st s \<or> s = sk0" for k0 sk0 a0 p0
  proof -
    from only cl notcl have "sk = sk0" by blast
    moreover from m have "(k0, sk0, a0, p0) \<in> set (connections st)" by (rule map_of_SomeD)
    ultimately have "(k, sk, addr, prt) = (k0, sk0, a0, p0)"
      using inj mem by (auto dest!: inj_onD [where x = "(k, sk, addr, prt)" and y = "(k0, sk0, a0, p0)"])
    then show ?thesis
      using AList.delete_notin_dom [of k0 "connections st"] by (simp add: live_def c)
  qed
  from ch show ?thesis
    unfolding table_change_def
    using cl notcl old removed
    by (elim conjE disjE exE) (fastforce simp add: live_def)+
qed

text \<open>
  Claim C8: in every state a run of the peer reaches, every record of the table holds a
  socket that has not been closed, and the ids of the table are distinct; the counter never
  decreases, and an id that appears in the table later is either in the table now or
  greater than the counter is now, so ids are given out in increasing order and an id that
  has left the table never comes back; and a call that closes the socket of a record
  removes that record in the same call.
\<close>

theorem connection_table_invariant:
  "sockets_open (run lib acts (ChatPeer_init p)) \<and>
   ids_assigned (run lib acts (ChatPeer_init p)) \<and>
   connection_counter (run lib acts (ChatPeer_init p))
     \<le> connection_counter (run lib (acts @ later) (ChatPeer_init p)) \<and>
   (\<forall>k \<in> set (live (run lib (acts @ later) (ChatPeer_init p))).
      k \<in> set (live (run lib acts (ChatPeer_init p))) \<or>
      connection_counter (run lib acts (ChatPeer_init p)) < k) \<and>
   (\<forall>k sk addr prt.
      (k, sk, addr, prt) \<in> set (connections (run lib acts (ChatPeer_init p))) \<and>
      closed (exec lib a (run lib acts (ChatPeer_init p))) sk \<longrightarrow>
        k \<notin> set (live (exec lib a (run lib acts (ChatPeer_init p)))))"
proof -
  let ?st = "run lib acts (ChatPeer_init p)"
  have ok: "table_ok ?st"
    by (rule table_ok_run [OF table_ok_init])
  then have inv: "sockets_open ?st" "ids_assigned ?st"
    by (simp_all add: table_ok_def)
  have ids: "connection_counter ?st \<le> connection_counter (run lib (acts @ later) (ChatPeer_init p)) \<and>
      (\<forall>k \<in> set (live (run lib (acts @ later) (ChatPeer_init p))).
         k \<in> set (live ?st) \<or> connection_counter ?st < k)"
    unfolding run_append by (rule run_ids [OF ok])
  have step: "table_change ?st (exec lib a ?st)"
    using inv(2) by (intro exec_change) (simp add: ids_assigned_def live_def)
  have same_call: "\<forall>k sk addr prt.
      (k, sk, addr, prt) \<in> set (connections ?st) \<and> closed (exec lib a ?st) sk \<longrightarrow>
        k \<notin> set (live (exec lib a ?st))"
    using close_removes [OF ok step] by blast
  from inv ids same_call show ?thesis by blast
qed

theorem connection_table_invariant_witness:
  "connections (run example_lib [Accept good_accept] (ChatPeer_init 5000))
     = [(1, 1, example_ip, 6000)] \<and>
   closed (exec example_lib (Terminate 1)
     (run example_lib [Accept good_accept] (ChatPeer_init 5000))) 1 \<and>
   1 \<notin> set (live (exec example_lib (Terminate 1)
     (run example_lib [Accept good_accept] (ChatPeer_init 5000)))) \<and>
   connections (run example_lib ([Accept good_accept] @ [Terminate 1, Accept good_accept])
     (ChatPeer_init 5000)) = [(2, 2, example_ip, 6000)] \<and>
   sockets_open (run example_lib [Accept good_accept] (ChatPeer_init 5000)) \<and>
   ids_assigned (run example_lib [Accept good_accept] (ChatPeer_init 5000))"
proof -
  let ?st = "run example_lib [Accept good_accept] (ChatPeer_init 5000)"
  have r1: "?st = one_peer"
    by (simp add: run_def one_peer_def)
  have c1: "connections ?st = [(1, 1, example_ip, 6000)]"
    by (simp add: r1 one_peer_eq)
  have e: "exec example_lib (Terminate 1) ?st =
      emit [SockClose 1, Print (Terminated 1 example_ip 6000)] (one_peer\<lparr>connections := []\<rparr>)"
    unfolding r1 by (simp add: terminate_connection_def with_lock_def one_peer_eq emit_def)
  have cl: "closed (exec example_lib (Terminate 1) ?st) 1"
    unfolding e by (simp add: closed_def emit_def)
  have r3: "connections (run example_lib ([Accept good_accept] @ [Terminate 1, Accept good_accept])
     (ChatPeer_init 5000)) = [(2, 2, example_ip, 6000)]"
    unfolding run_append r1
    by (simp add: run_def terminate_connection_def accept_iteration_def good_accept_def
        example_lib_def int_of_bytes_def with_lock_def register_def str_int_def utf8_char_def
        one_peer_eq emit_def Let_def)
  note t = connection_table_invariant
    [of example_lib "[Accept good_accept]" 5000 "[Terminate 1, Accept good_accept]" "Terminate 1"]
  from t have inv: "sockets_open ?st" "ids_assigned ?st"
    by blast+
  from t have "(1, 1, example_ip, 6000) \<in> set (connections ?st) \<and>
      closed (exec example_lib (Terminate 1) ?st) 1 \<longrightarrow>
        1 \<notin> set (live (exec example_lib (Terminate 1) ?st))"
    by blast
  with c1 cl have gone: "1 \<notin> set (live (exec example_lib (Terminate 1) ?st))"
    by simp
  from c1 cl gone r3 inv show ?thesis by blast
qed

end
